theory Spec2Isabelle
  imports Main
begin

section \<open>The Yeelight discovery engine (discover.ts)\<close>

text \<open>
  The class \<open>Discover\<close> owns a UDP socket, a list of devices and its options. The fields
  of the object are one record; the variables that one call of \<open>start()\<close> closes over
  (\<open>ts\<close>, the interval timer, the promise) are a second record, because the object has
  no field that refers to them. The socket, the parser \<open>Utils.parseDeviceInfo\<close> and the
  interface \<open>IDevice\<close> are not part of the file. The socket is a record of the calls
  the engine makes on it and of its bind state; what a call on the socket gives back
  is an input of the operation that makes the call, except where the socket decides
  by itself (\<open>bind\<close> on a socket that is closed, bound or being bound throws). The
  parser is a parameter, and a device is its \<open>id\<close> with the rest of its fields as a
  type parameter.
\<close>

subsection \<open>Data\<close>

record 'm device =
  dev_id :: string
  meta :: 'm

text \<open>
  The options of the engine. A field holds a value or \<open>undefined\<close> (\<open>None\<close>); numbers
  are integers.
\<close>

record discover_config =
  debug :: "bool option"
  host :: "string option"
  limit :: "int option"
  multicastHost :: "string option"
  port :: "int option"
  timeout :: "int option"

text \<open>
  The argument of the constructor: every key may be left out, and a key that is
  present carries a value or \<open>undefined\<close>.
\<close>

datatype 'a key = Key_absent | Key_present "'a option"

record discover_options =
  debug_opt :: "bool key"
  host_opt :: "string key"
  limit_opt :: "int key"
  multicastHost_opt :: "string key"
  port_opt :: "int key"
  timeout_opt :: "int key"

text \<open>Values a promise is rejected with: an \<open>Error\<close> object of the socket, or a string.\<close>

datatype js_value = JError string | JString string

text \<open>
  The socket as the engine sees it: whether the message handler is attached, whether
  the socket is unbound, being bound or bound, the calls of \<open>bind\<close>, whether broadcast
  was switched on, the datagrams handed to \<open>send\<close>, and the number of calls of
  \<open>close\<close>.
\<close>

datatype bind_state = Unbound | Binding | Bound

record socket =
  message_handler :: bool
  bind_state :: bind_state
  bind_calls :: "(int option \<times> string option) list"
  broadcast :: bool
  sent :: "(string \<times> int option \<times> string option) list"
  close_calls :: nat

text \<open>
  What an open, unbound socket does with \<open>bind\<close>: it throws; or the bind fails later
  (the address cannot be resolved, the port is taken), the socket reports that with
  its own \<open>error\<close> event, is unbound again and never calls the callback; or it calls
  the callback; or it has not answered yet.
\<close>

datatype bind_reply = Bind_throws string | Bind_error string | Bind_listening | Bind_pending

text \<open>
  What happens in the callback of \<open>bind\<close>: \<open>setBroadcast(true)\<close> throws; or \<open>send\<close>
  throws (a port that is not in 1..65535); or \<open>send\<close> calls its callback with an
  error or without one; or it has not called back yet.
\<close>

datatype send_reply =
    SetBroadcast_throws string
  | Send_throws string
  | Send_error string
  | Send_ok
  | Send_pending

datatype close_reply = Close_throws string | Close_done | Close_pending

text \<open>
  The object. \<open>listeners\<close> are the subscribers of the emitter (event name, subscriber),
  \<open>delivered\<close> the notifications they were given, \<open>logged\<close> the calls of
  \<open>logger.info\<close>, \<open>console\<close> the values printed by \<open>console.log("ERROR", err)\<close>, and
  \<open>uncaught\<close> the exceptions that left a callback of the socket without being caught.
\<close>

record 'm discover =
  devices :: "'m device list"
  options :: discover_config
  client :: "socket option"
  listeners :: "(string \<times> nat) list"
  delivered :: "(nat \<times> string \<times> 'm device) list"
  logged :: "string list"
  console :: "js_value list"
  uncaught :: "js_value list"

text \<open>
  A promise. \<open>start()\<close> resolves with the array object \<open>this.devices\<close> itself, not
  with a copy, so the value of a resolved run is a reference: what it holds is read
  from \<open>devices\<close> of the object.
\<close>

datatype 'a settled = Pending | Resolved 'a | Rejected js_value

datatype array_ref = This_devices

datatype timer_state = NotStarted | Active | Cleared

record run =
  ts :: nat
  timer :: timer_state
  promise :: "array_ref settled"

subsection \<open>The registry: \<open>addDevice\<close>\<close>

text \<open>\<open>Array.prototype.findIndex\<close>: the first index whose element satisfies \<open>p\<close>, else -1.\<close>

fun findIndex :: "('a \<Rightarrow> bool) \<Rightarrow> 'a list \<Rightarrow> int" where
  "findIndex p [] = - 1"
| "findIndex p (x # xs) =
     (if p x then 0
      else (let i = findIndex p xs in if i < 0 then - 1 else i + 1))"

definition addDevice :: "'m discover \<Rightarrow> 'm device \<Rightarrow> 'm discover \<times> nat" where
  "addDevice this device =
     (let existDevice = findIndex (\<lambda>x. dev_id x = dev_id device) (devices this)
      in if existDevice \<le> 0
         then (this\<lparr>devices := devices this @ [device]\<rparr>, 1)
         else (this\<lparr>devices := (devices this)[nat existDevice := device]\<rparr>, 0))"

subsection \<open>Constructor, emitter and message handler\<close>

definition default_options :: discover_config where
  "default_options =
     \<lparr>debug = Some True, host = Some '''', limit = Some 1,
      multicastHost = Some ''239.255.255.250'', port = Some 1982, timeout = Some 10000\<rparr>"

text \<open>
  One key of \<open>{ ...this.options, ...options }\<close>: a key that is present in \<open>options\<close>
  replaces the default, also when its value is \<open>undefined\<close>.
\<close>

definition spread :: "'a option \<Rightarrow> 'a key \<Rightarrow> 'a option" where
  "spread d k = (case k of Key_absent \<Rightarrow> d | Key_present v \<Rightarrow> v)"

definition merge_options :: "discover_config \<Rightarrow> discover_options \<Rightarrow> discover_config" where
  "merge_options d opts =
     \<lparr>debug = spread (debug d) (debug_opt opts),
      host = spread (host d) (host_opt opts),
      limit = spread (limit d) (limit_opt opts),
      multicastHost = spread (multicastHost d) (multicastHost_opt opts),
      port = spread (port d) (port_opt opts),
      timeout = spread (timeout d) (timeout_opt opts)\<rparr>"

definition createSocket :: socket where
  "createSocket =
     \<lparr>message_handler = False, bind_state = Unbound, bind_calls = [], broadcast = False,
      sent = [], close_calls = 0\<rparr>"

definition constructor :: "discover_options \<Rightarrow> 'm discover" where
  "constructor opts =
     \<lparr>devices = [],
      options = merge_options default_options opts,
      client = Some (createSocket\<lparr>message_handler := True\<rparr>),
      listeners = [], delivered = [], logged = [], console = [], uncaught = []\<rparr>"

definition on_event :: "'m discover \<Rightarrow> string \<Rightarrow> nat \<Rightarrow> 'm discover" where
  "on_event this ev l = this\<lparr>listeners := listeners this @ [(ev, l)]\<rparr>"

definition emit :: "'m discover \<Rightarrow> string \<Rightarrow> 'm device \<Rightarrow> 'm discover" where
  "emit this ev payload =
     this\<lparr>delivered := delivered this @
        map (\<lambda>s. (snd s, ev, payload)) (filter (\<lambda>s. fst s = ev) (listeners this))\<rparr>"

text \<open>
  The message handler. The buffer is taken as its text. The constructor always sets a
  logger (\<open>logger || defaultLogger\<close>), so the text is logged exactly when \<open>debug\<close> is
  true. The handler reads neither the promise nor the timer of a run.
\<close>

definition onSocketMessage ::
  "(string \<Rightarrow> 'm device option) \<Rightarrow> 'm discover \<Rightarrow> string \<Rightarrow> 'm discover" where
  "onSocketMessage parseDeviceInfo this message =
     (let this1 = (if debug (options this) = Some True
                   then this\<lparr>logged := logged this @ [message]\<rparr>
                   else this)
      in case parseDeviceInfo message of
           None \<Rightarrow> this1
         | Some device \<Rightarrow> emit (fst (addDevice this1 device)) ''deviceAdded'' device)"

subsection \<open>\<open>start()\<close> and the poll timer\<close>

text \<open>
  The decimal text of a tick counter, as string concatenation with a number gives it
  (the counter is a non-negative integer).
\<close>

fun string_of_nat :: "nat \<Rightarrow> string" where
  "string_of_nat n =
     (if n < 10 then [''0123456789'' ! n]
      else string_of_nat (n div 10) @ [''0123456789'' ! (n mod 10)])"

declare string_of_nat.simps [simp del]

definition getMessage :: string where
  "getMessage =
     ''M-SEARCH * HTTP/1.1'' @ [CHR 0x0D, CHR 0x0A] @
     ''HOST: 239.255.255.250:1982'' @ [CHR 0x0D, CHR 0x0A] @
     ''MAN: '' @ [CHR 0x22] @ ''ssdp:discover'' @ [CHR 0x22, CHR 0x0D, CHR 0x0A] @
     ''ST: wifi_bulb'' @ [CHR 0x0D, CHR 0x0A]"

text \<open>A promise keeps its first settlement: later calls of resolve and reject do nothing.\<close>

definition resolve :: "run \<Rightarrow> run" where
  "resolve r = (if promise r = Pending then r\<lparr>promise := Resolved This_devices\<rparr> else r)"

definition reject :: "run \<Rightarrow> js_value \<Rightarrow> run" where
  "reject r v = (if promise r = Pending then r\<lparr>promise := Rejected v\<rparr> else r)"

definition clearInterval :: "run \<Rightarrow> run" where
  "clearInterval r = r\<lparr>timer := Cleared\<rparr>"

definition interval :: nat where
  "interval = 200"

text \<open>
  The body of the interval callback. The two \<open>if\<close> statements follow each other (the
  second is not an \<open>else\<close>), so both run in one tick. A comparison with \<open>undefined\<close> is
  false.
\<close>

definition tick :: "'m discover \<Rightarrow> run \<Rightarrow> run" where
  "tick this r =
     (let r1 = r\<lparr>ts := ts r + interval\<rparr>;
          r2 = (if (case limit (options this) of
                      None \<Rightarrow> False
                    | Some l \<Rightarrow> l \<le> int (length (devices this)))
                then resolve (clearInterval r1) else r1)
      in if (case timeout (options this) of
               None \<Rightarrow> False
             | Some t \<Rightarrow> 0 < t \<and> t < int (ts r2))
         then (if 0 < length (devices this)
               then resolve (clearInterval r2)
               else reject (clearInterval r2)
                      (JString (''No device found after timeout exceeded : '' @
                                string_of_nat (ts r2))))
         else r2)"

text \<open>The runtime calls the callback only while the interval timer is set.\<close>

definition fire :: "'m discover \<Rightarrow> run \<Rightarrow> run" where
  "fire this r = (if timer r = Active then tick this r else r)"

text \<open>
  \<open>start()\<close>: the executor of the promise calls \<open>bind\<close>; an exception thrown there
  rejects the promise. The socket throws \<open>ERR_SOCKET_DGRAM_NOT_RUNNING\<close> when it was
  closed and \<open>ERR_SOCKET_ALREADY_BOUND\<close> when it is bound or being bound; on an open,
  unbound socket the outcome of \<open>bind\<close> is the input \<open>b\<close>. A bind that fails later is
  reported by the socket's \<open>error\<close> event, for which the engine has no listener: the
  callback is not called and the promise stays pending. In the callback of \<open>bind\<close>
  come \<open>setBroadcast(true)\<close> and \<open>send\<close>; an exception of either leaves the callback
  uncaught, outside the executor, so the promise is not rejected by it. In the
  callback of \<open>send\<close> comes either \<open>console.log\<close> and \<open>reject(err)\<close>, or the timer. The
  callbacks are taken together with the call: the engine reads nothing of its state
  between them.
\<close>

definition start :: "'m discover \<Rightarrow> bind_reply \<Rightarrow> send_reply \<Rightarrow> 'm discover \<times> run" where
  "start this b s =
     (case client this of
        None \<Rightarrow> (this, \<lparr>ts = 0, timer = NotStarted, promise = Rejected (JError ''TypeError'')\<rparr>)
      | Some c \<Rightarrow>
          (let c1 = c\<lparr>bind_calls := bind_calls c @ [(port (options this), host (options this))]\<rparr>
           in if 0 < close_calls c
              then (this\<lparr>client := Some c1\<rparr>,
                    \<lparr>ts = 0, timer = NotStarted,
                     promise = Rejected (JError ''ERR_SOCKET_DGRAM_NOT_RUNNING'')\<rparr>)
              else if bind_state c \<noteq> Unbound
              then (this\<lparr>client := Some c1\<rparr>,
                    \<lparr>ts = 0, timer = NotStarted,
                     promise = Rejected (JError ''ERR_SOCKET_ALREADY_BOUND'')\<rparr>)
              else case b of
                Bind_throws e \<Rightarrow>
                  (this\<lparr>client := Some c1\<rparr>,
                   \<lparr>ts = 0, timer = NotStarted, promise = Rejected (JError e)\<rparr>)
              | Bind_error e \<Rightarrow>
                  (this\<lparr>client := Some c1\<rparr>,
                   \<lparr>ts = 0, timer = NotStarted, promise = Pending\<rparr>)
              | Bind_pending \<Rightarrow>
                  (this\<lparr>client := Some (c1\<lparr>bind_state := Binding\<rparr>)\<rparr>,
                   \<lparr>ts = 0, timer = NotStarted, promise = Pending\<rparr>)
              | Bind_listening \<Rightarrow>
                  (let c2 = c1\<lparr>bind_state := Bound\<rparr>;
                       c3 = c2\<lparr>broadcast := True,
                                sent := sent c2 @ [(getMessage, port (options this),
                                                    multicastHost (options this))]\<rparr>
                   in case s of
                        SetBroadcast_throws e \<Rightarrow>
                          (this\<lparr>client := Some c2, uncaught := uncaught this @ [JError e]\<rparr>,
                           \<lparr>ts = 0, timer = NotStarted, promise = Pending\<rparr>)
                      | Send_throws e \<Rightarrow>
                          (this\<lparr>client := Some (c2\<lparr>broadcast := True\<rparr>),
                                 uncaught := uncaught this @ [JError e]\<rparr>,
                           \<lparr>ts = 0, timer = NotStarted, promise = Pending\<rparr>)
                      | Send_error e \<Rightarrow>
                          (this\<lparr>client := Some c3, console := console this @ [JError e]\<rparr>,
                           \<lparr>ts = 0, timer = NotStarted, promise = Rejected (JError e)\<rparr>)
                      | Send_ok \<Rightarrow>
                          (this\<lparr>client := Some c3\<rparr>,
                           \<lparr>ts = 0, timer = Active, promise = Pending\<rparr>)
                      | Send_pending \<Rightarrow>
                          (this\<lparr>client := Some c3\<rparr>,
                           \<lparr>ts = 0, timer = NotStarted, promise = Pending\<rparr>))))"

subsection \<open>\<open>destroy()\<close>\<close>

text \<open>
  \<open>destroy()\<close> returns at once when \<open>this.client\<close> is missing; otherwise it removes
  the listeners of the emitter and calls \<open>close\<close> with the promise's \<open>resolve\<close> as the
  callback. An exception of \<open>close\<close> is thrown inside the executor and rejects the
  promise. The field \<open>client\<close> is not assigned.
\<close>

definition destroy :: "'m discover \<Rightarrow> close_reply \<Rightarrow> 'm discover \<times> unit settled" where
  "destroy this c =
     (case client this of
        None \<Rightarrow> (this, Resolved ())
      | Some s \<Rightarrow>
          (this\<lparr>listeners := [], client := Some (s\<lparr>close_calls := Suc (close_calls s)\<rparr>)\<rparr>,
           case c of
             Close_throws e \<Rightarrow> Rejected (JError e)
           | Close_done \<Rightarrow> Resolved ()
           | Close_pending \<Rightarrow> Pending))"

subsection \<open>Sequences of callbacks\<close>

text \<open>
  What can happen to an engine with one run of \<open>start()\<close>: the timer fires, the socket
  hands a datagram to the message handler, somebody subscribes, somebody calls
  \<open>destroy()\<close>.
\<close>

datatype event = Tick | Datagram string | Subscribe string nat | Destroy close_reply

fun step ::
  "(string \<Rightarrow> 'm device option) \<Rightarrow> 'm discover \<times> run \<Rightarrow> event \<Rightarrow> 'm discover \<times> run" where
  "step parseDeviceInfo (this, r) Tick = (this, fire this r)"
| "step parseDeviceInfo (this, r) (Datagram message) =
     (onSocketMessage parseDeviceInfo this message, r)"
| "step parseDeviceInfo (this, r) (Subscribe ev l) = (on_event this ev l, r)"
| "step parseDeviceInfo (this, r) (Destroy c) = (fst (destroy this c), r)"

definition run_events ::
  "(string \<Rightarrow> 'm device option) \<Rightarrow> 'm discover \<times> run \<Rightarrow> event list \<Rightarrow> 'm discover \<times> run" where
  "run_events parseDeviceInfo = foldl (step parseDeviceInfo)"

subsection \<open>Concrete engines for the examples\<close>

text \<open>\<open>new Discover({})\<close>: every option at its default (limit 1, timeout 10000).\<close>

definition no_options :: discover_options where
  "no_options =
     \<lparr>debug_opt = Key_absent, host_opt = Key_absent, limit_opt = Key_absent,
      multicastHost_opt = Key_absent, port_opt = Key_absent, timeout_opt = Key_absent\<rparr>"

definition default_engine :: "string discover" where
  "default_engine = constructor no_options"

text \<open>\<open>new Discover({limit: 1, timeout: 1000})\<close>.\<close>

definition scenario_options :: discover_options where
  "scenario_options =
     \<lparr>debug_opt = Key_absent, host_opt = Key_absent, limit_opt = Key_present (Some 1),
      multicastHost_opt = Key_absent, port_opt = Key_absent,
      timeout_opt = Key_present (Some 1000)\<rparr>"

definition scenario_engine :: "string discover" where
  "scenario_engine = constructor scenario_options"

text \<open>\<open>new Discover({limit: 2, timeout: 0})\<close>.\<close>

definition unbounded_options :: discover_options where
  "unbounded_options =
     \<lparr>debug_opt = Key_absent, host_opt = Key_absent, limit_opt = Key_present (Some 2),
      multicastHost_opt = Key_absent, port_opt = Key_absent,
      timeout_opt = Key_present (Some 0)\<rparr>"

definition unbounded_engine :: "string discover" where
  "unbounded_engine = constructor unbounded_options"

text \<open>\<open>new Discover({port: 0})\<close>: \<open>bind\<close> takes any free port, \<open>send\<close> refuses port 0.\<close>

definition port0_options :: discover_options where
  "port0_options =
     \<lparr>debug_opt = Key_absent, host_opt = Key_absent, limit_opt = Key_absent,
      multicastHost_opt = Key_absent, port_opt = Key_present (Some 0),
      timeout_opt = Key_absent\<rparr>"

definition port0_engine :: "string discover" where
  "port0_engine = constructor port0_options"

text \<open>
  A stand-in for the parser in the examples: the text \<open>junk\<close> is not a device, any
  other text is a device whose id is the text.
\<close>

definition example_parser :: "string \<Rightarrow> string device option" where
  "example_parser message =
     (if message = ''junk'' then None else Some \<lparr>dev_id = message, meta = ''mono''\<rparr>)"

text \<open>
  The states a run without timeout can be in: pending, or resolved with the limit
  reached; never rejected.
\<close>

definition unbounded_ok :: "'m discover \<times> run \<Rightarrow> bool" where
  "unbounded_ok s =
     (case promise (snd s) of
        Pending \<Rightarrow> True
      | Resolved v \<Rightarrow>
          (case limit (options (fst s)) of
             None \<Rightarrow> False
           | Some l \<Rightarrow> l \<le> int (length (devices (fst s))))
      | Rejected v \<Rightarrow> False)"

section \<open>Properties\<close>

lemmas constructor_simps =
  constructor_def merge_options_def spread_def default_options_def createSocket_def

lemmas engine_simps =
  default_engine_def no_options_def scenario_engine_def scenario_options_def
  unbounded_engine_def unbounded_options_def port0_engine_def port0_options_def
  constructor_simps

lemmas tick_simps =
  tick_def Let_def resolve_def reject_def clearInterval_def interval_def

subsection \<open>The registry\<close>

lemma findIndex_bounds: "- 1 \<le> findIndex p xs \<and> findIndex p xs < int (length xs)"
  by (induction xs) (auto simp: Let_def)

lemma findIndex_not_found: "findIndex p xs < 0 \<longleftrightarrow> (\<forall>x \<in> set xs. \<not> p x)"
  by (induction xs) (auto simp: Let_def)

lemma findIndex_found:
  "0 \<le> findIndex p xs \<Longrightarrow>
   p (xs ! nat (findIndex p xs)) \<and> (\<forall>j < nat (findIndex p xs). \<not> p (xs ! j))"
proof (induction xs)
  case Nil
  then show ?case by simp
next
  case (Cons x xs)
  show ?case
  proof (cases "p x")
    case True
    then show ?thesis by simp
  next
    case False
    with Cons.prems have nn: "0 \<le> findIndex p xs"
      by (simp add: Let_def split: if_splits)
    with False have idx: "findIndex p (x # xs) = findIndex p xs + 1"
      by (simp add: Let_def)
    from nn have suc: "nat (findIndex p xs + 1) = Suc (nat (findIndex p xs))"
      by simp
    from Cons.IH [OF nn] False show ?thesis
      unfolding idx suc by (auto simp: nth_Cons split: nat.splits)
  qed
qed

lemma addDevice_length: "length (devices this) \<le> length (devices (fst (addDevice this device)))"
  by (simp add: addDevice_def Let_def)

lemma addDevice_options: "options (fst (addDevice this device)) = options this"
  by (simp add: addDevice_def Let_def)

text \<open>
  Claim C1 (identifier uniqueness of the registry, also for the record at position 0).
  The code does not keep it: \<open>findIndex\<close> answers 0 for a match at the first
  position, and \<open>addDevice\<close> takes every index \<open>\<le> 0\<close> for "not found". Whenever the
  first record of the list carries the identifier of the new record, the new record
  is appended and the function reports 1 ("new device added"); the list then holds
  two records with that identifier.
\<close>

theorem addDevice_appends_when_first_matches:
  assumes "devices this = x # xs" and "dev_id x = dev_id device"
  shows "addDevice this device = (this\<lparr>devices := x # xs @ [device]\<rparr>, 1)
       \<and> \<not> distinct (map dev_id (devices (fst (addDevice this device))))"
  using assms by (simp add: addDevice_def)

text \<open>
  Claim C1, at a concrete input: the engine has seen the device \<open>abc\<close> once, and the
  same reply arrives again.
\<close>

theorem addDevice_appends_when_first_matches_witness:
  "devices (default_engine\<lparr>devices := [\<lparr>dev_id = ''abc'', meta = ''mono''\<rparr>]\<rparr>)
     = \<lparr>dev_id = ''abc'', meta = ''mono''\<rparr> # []
   \<and> dev_id \<lparr>dev_id = ''abc'', meta = ''mono''\<rparr> = dev_id \<lparr>dev_id = ''abc'', meta = ''mono''\<rparr>
   \<and> devices (fst (addDevice (default_engine\<lparr>devices := [\<lparr>dev_id = ''abc'', meta = ''mono''\<rparr>]\<rparr>)
                  \<lparr>dev_id = ''abc'', meta = ''mono''\<rparr>))
     = [\<lparr>dev_id = ''abc'', meta = ''mono''\<rparr>, \<lparr>dev_id = ''abc'', meta = ''mono''\<rparr>]
   \<and> snd (addDevice (default_engine\<lparr>devices := [\<lparr>dev_id = ''abc'', meta = ''mono''\<rparr>]\<rparr>)
             \<lparr>dev_id = ''abc'', meta = ''mono''\<rparr>) = 1"
proof -
  have h1: "devices (default_engine\<lparr>devices := [\<lparr>dev_id = ''abc'', meta = ''mono''\<rparr>]\<rparr>)
              = \<lparr>dev_id = ''abc'', meta = ''mono''\<rparr> # []"
    by simp
  have h2: "dev_id \<lparr>dev_id = ''abc'', meta = ''mono''\<rparr> = dev_id \<lparr>dev_id = ''abc'', meta = ''mono''\<rparr>"
    by simp
  from addDevice_appends_when_first_matches [OF h1 h2]
  show ?thesis by simp
qed

text \<open>
  Claim C2 (last write wins: a second reply with the same identifier leaves the count
  unchanged and the stored record is the latest one). The code breaks it for the
  first-seen device: from the empty registry, two replies with the identifier \<open>abc\<close>
  and different metadata give a list of two records, the count goes from 1 to 2, and
  the first record found under \<open>abc\<close> still carries the old metadata.
\<close>

theorem addDevice_same_id_twice_grows:
  "devices (fst (addDevice default_engine \<lparr>dev_id = ''abc'', meta = ''mono''\<rparr>))
     = [\<lparr>dev_id = ''abc'', meta = ''mono''\<rparr>]
   \<and> devices (fst (addDevice (fst (addDevice default_engine \<lparr>dev_id = ''abc'', meta = ''mono''\<rparr>))
                  \<lparr>dev_id = ''abc'', meta = ''color''\<rparr>))
     = [\<lparr>dev_id = ''abc'', meta = ''mono''\<rparr>, \<lparr>dev_id = ''abc'', meta = ''color''\<rparr>]
   \<and> snd (addDevice (fst (addDevice default_engine \<lparr>dev_id = ''abc'', meta = ''mono''\<rparr>))
             \<lparr>dev_id = ''abc'', meta = ''color''\<rparr>) = 1
   \<and> find (\<lambda>x. dev_id x = ''abc'')
        (devices (fst (addDevice (fst (addDevice default_engine \<lparr>dev_id = ''abc'', meta = ''mono''\<rparr>))
                        \<lparr>dev_id = ''abc'', meta = ''color''\<rparr>)))
     = Some \<lparr>dev_id = ''abc'', meta = ''mono''\<rparr>"
  by (simp add: addDevice_def engine_simps)

text \<open>
  Away from position 0 the upsert works: when the first record with the identifier
  sits at an index \<open>i \<ge> 1\<close>, it is replaced in place and the length stays.
\<close>

lemma addDevice_replaces_later_record:
  assumes "0 < findIndex (\<lambda>x. dev_id x = dev_id device) (devices this)"
  shows "addDevice this device =
           (this\<lparr>devices := (devices this)
               [nat (findIndex (\<lambda>x. dev_id x = dev_id device) (devices this)) := device]\<rparr>, 0)
       \<and> length (devices (fst (addDevice this device))) = length (devices this)"
  using assms by (simp add: addDevice_def Let_def)

lemma addDevice_appends_unknown:
  assumes "\<forall>x \<in> set (devices this). dev_id x \<noteq> dev_id device"
  shows "addDevice this device = (this\<lparr>devices := devices this @ [device]\<rparr>, 1)"
proof -
  from assms have "findIndex (\<lambda>x. dev_id x = dev_id device) (devices this) < 0"
    by (simp add: findIndex_not_found)
  then show ?thesis by (simp add: addDevice_def Let_def)
qed

subsection \<open>The poll tick\<close>

lemma tick_limit_reached:
  assumes "limit (options this) = Some l" and "l \<le> int (length (devices this))"
    and "promise r = Pending"
  shows "tick this r = r\<lparr>ts := ts r + 200, timer := Cleared, promise := Resolved This_devices\<rparr>"
  using assms by (simp add: tick_simps split: option.splits)

lemma tick_no_timeout:
  assumes "timeout (options this) = Some 0"
  shows "tick this r =
           (if (case limit (options this) of
                  None \<Rightarrow> False
                | Some l \<Rightarrow> l \<le> int (length (devices this)))
            then resolve (clearInterval (r\<lparr>ts := ts r + interval\<rparr>))
            else r\<lparr>ts := ts r + interval\<rparr>)"
  using assms by (simp add: tick_def Let_def)

lemma tick_cong:
  assumes "devices a = devices b" and "options a = options b"
  shows "tick a r = tick b r"
  using assms by (simp only: tick_def)

lemma fire_cong:
  assumes "devices a = devices b" and "options a = options b"
  shows "fire a r = fire b r"
  using tick_cong [OF assms, of r] by (simp add: fire_def)

text \<open>
  Claim C3 (the limit is tested before the timeout, so the limit wins a tie). On a
  tick of a pending run with \<open>limit \<ge> 1\<close> and \<open>timeout > 0\<close>, on which the list has
  reached the limit and the timeout has run out as well (the counter after the tick
  is at or beyond the timeout), the run resolves with the device array and the timer
  is cleared. The first \<open>if\<close> settles the promise; what the second \<open>if\<close> then does to
  the settled promise has no effect.
\<close>

theorem tick_limit_wins_tie:
  assumes "limit (options this) = Some l" and "1 \<le> l"
    and "timeout (options this) = Some t" and "0 < t"
    and "l \<le> int (length (devices this))"
    and "t \<le> int (ts r + 200)"
    and "promise r = Pending"
  shows "tick this r = resolve (clearInterval (r\<lparr>ts := ts r + 200\<rparr>))
       \<and> tick this r = r\<lparr>ts := ts r + 200, timer := Cleared, promise := Resolved This_devices\<rparr>"
  using assms by (simp add: tick_simps)

text \<open>
  Claim C3, at a concrete input: limit 1, timeout 1000, one device in the list, and
  the sixth tick (counter 1200, beyond the timeout).
\<close>

theorem tick_limit_wins_tie_witness:
  "limit (options (scenario_engine\<lparr>devices := [\<lparr>dev_id = ''abc'', meta = ''mono''\<rparr>]\<rparr>)) = Some 1
   \<and> (1::int) \<le> 1
   \<and> timeout (options (scenario_engine\<lparr>devices := [\<lparr>dev_id = ''abc'', meta = ''mono''\<rparr>]\<rparr>))
       = Some 1000
   \<and> (0::int) < 1000
   \<and> 1 \<le> int (length (devices (scenario_engine\<lparr>devices := [\<lparr>dev_id = ''abc'', meta = ''mono''\<rparr>]\<rparr>)))
   \<and> 1000 \<le> int (ts \<lparr>ts = 1000, timer = Active, promise = Pending\<rparr> + 200)
   \<and> promise \<lparr>ts = 1000, timer = Active, promise = Pending\<rparr> = Pending
   \<and> tick (scenario_engine\<lparr>devices := [\<lparr>dev_id = ''abc'', meta = ''mono''\<rparr>]\<rparr>)
        \<lparr>ts = 1000, timer = Active, promise = Pending\<rparr>
     = \<lparr>ts = 1200, timer = Cleared, promise = Resolved This_devices\<rparr>"
proof -
  let ?e = "scenario_engine\<lparr>devices := [\<lparr>dev_id = ''abc'', meta = ''mono''\<rparr>]\<rparr>"
  let ?r = "\<lparr>ts = 1000, timer = Active, promise = Pending\<rparr>"
  have h1: "limit (options ?e) = Some 1" by (simp add: engine_simps)
  have h2: "(1::int) \<le> 1" by simp
  have h3: "timeout (options ?e) = Some 1000" by (simp add: engine_simps)
  have h4: "(0::int) < 1000" by simp
  have h5: "1 \<le> int (length (devices ?e))" by simp
  have h6: "1000 \<le> int (ts ?r + 200)" by simp
  have h7: "promise ?r = Pending" by simp
  from conjunct2 [OF tick_limit_wins_tie [OF h1 h2 h3 h4 h5 h6 h7]]
  have "tick ?e ?r = \<lparr>ts = 1200, timer = Cleared, promise = Resolved This_devices\<rparr>"
    by simp
  with h1 h2 h3 h4 h5 h6 h7 show ?thesis by blast
qed

text \<open>
  Claim C4 (the run ends on the first tick with \<open>elapsed \<ge> timeoutMs\<close>). The code
  compares strictly, \<open>timeout < ts\<close>: with limit 1 and timeout 1000 and no reply, the
  fifth tick has the counter 1000, equal to the timeout, and the run is still
  pending with its timer set.
\<close>

theorem tick_at_timeout_still_pending:
  "timeout (options scenario_engine) = Some 1000
   \<and> snd (run_events example_parser (start scenario_engine Bind_listening Send_ok)
            [Tick, Tick, Tick, Tick, Tick])
     = \<lparr>ts = 1000, timer = Active, promise = Pending\<rparr>"
  by (simp add: run_events_def start_def fire_def tick_simps engine_simps)

text \<open>
  Claim C4 as the code has it. With \<open>timeout > 0\<close> and the limit not reached, a tick
  of a pending run ends the run exactly when the counter after the tick (200 for each
  tick so far) is greater than the timeout: it resolves with the device array when
  the list is not empty, and otherwise rejects with the text
  \<open>No device found after timeout exceeded : \<close> followed by the counter, which is then
  greater than the timeout. A tick whose counter is at most the timeout only advances
  the counter.
\<close>

theorem tick_timeout_exceeded:
  assumes "timeout (options this) = Some t" and "0 < t"
    and "limit (options this) = Some l" and "int (length (devices this)) < l"
    and "promise r = Pending"
  shows "tick this r =
     (if t < int (ts r + 200)
      then (if 0 < length (devices this)
            then r\<lparr>ts := ts r + 200, timer := Cleared, promise := Resolved This_devices\<rparr>
            else r\<lparr>ts := ts r + 200, timer := Cleared,
                   promise := Rejected (JString (''No device found after timeout exceeded : '' @
                                                  string_of_nat (ts r + 200)))\<rparr>)
      else r\<lparr>ts := ts r + 200\<rparr>)"
  using assms by (simp add: tick_simps)

text \<open>
  Claim C4 as the code has it, at a concrete input: limit 1, timeout 1000, no reply;
  the sixth tick rejects with the counter 1200.
\<close>

theorem tick_timeout_exceeded_witness:
  "timeout (options scenario_engine) = Some 1000
   \<and> (0::int) < 1000
   \<and> limit (options scenario_engine) = Some 1
   \<and> int (length (devices scenario_engine)) < 1
   \<and> promise \<lparr>ts = 1000, timer = Active, promise = Pending\<rparr> = Pending
   \<and> tick scenario_engine \<lparr>ts = 1000, timer = Active, promise = Pending\<rparr>
     = \<lparr>ts = 1200, timer = Cleared,
        promise = Rejected (JString ''No device found after timeout exceeded : 1200'')\<rparr>"
proof -
  let ?r = "\<lparr>ts = 1000, timer = Active, promise = Pending\<rparr>"
  have h1: "timeout (options scenario_engine) = Some 1000" by (simp add: engine_simps)
  have h2: "(0::int) < 1000" by simp
  have h3: "limit (options scenario_engine) = Some 1" by (simp add: engine_simps)
  have h4: "int (length (devices scenario_engine)) < 1" by (simp add: engine_simps)
  have h5: "promise ?r = Pending" by simp
  have d: "devices scenario_engine = []" by (simp add: engine_simps)
  from tick_timeout_exceeded [OF h1 h2 h3 h4 h5]
  have "tick scenario_engine ?r
          = \<lparr>ts = 1200, timer = Cleared,
             promise = Rejected (JString ''No device found after timeout exceeded : 1200'')\<rparr>"
    by (simp add: d string_of_nat.simps)
  with h1 h2 h3 h4 h5 show ?thesis by blast
qed

subsection \<open>\<open>start()\<close>\<close>

lemma start_devices: "devices (fst (start this b s)) = devices this"
  by (simp add: start_def Let_def split: option.splits bind_reply.splits send_reply.splits)

lemma start_options: "options (fst (start this b s)) = options this"
  by (simp add: start_def Let_def split: option.splits bind_reply.splits send_reply.splits)

lemma start_keeps_client: "client (fst (start this b s)) = None \<longleftrightarrow> client this = None"
  by (simp add: start_def Let_def split: option.splits bind_reply.splits send_reply.splits)

lemma start_close_calls:
  "map_option close_calls (client (fst (start this b s))) = map_option close_calls (client this)"
  by (simp add: start_def Let_def split: option.splits bind_reply.splits send_reply.splits)

text \<open>On a socket that is bound or being bound, \<open>start()\<close> only records the refused call.\<close>

lemma start_on_bound_socket:
  assumes "client this = Some c" and "close_calls c = 0" and "bind_state c \<noteq> Unbound"
  shows "start this b s =
           (this\<lparr>client := Some (c\<lparr>bind_calls := bind_calls c @
                                       [(port (options this), host (options this))]\<rparr>)\<rparr>,
            \<lparr>ts = 0, timer = NotStarted,
             promise = Rejected (JError ''ERR_SOCKET_ALREADY_BOUND'')\<rparr>)"
  using assms by (simp add: start_def Let_def)

text \<open>On a socket that was closed, \<open>start()\<close> is refused as well.\<close>

lemma start_on_closed_socket:
  assumes "client this = Some c" and "0 < close_calls c"
  shows "snd (start this b s) =
           \<lparr>ts = 0, timer = NotStarted,
            promise = Rejected (JError ''ERR_SOCKET_DGRAM_NOT_RUNNING'')\<rparr>"
  using assms by (simp add: start_def Let_def)

text \<open>A call whose bind the socket accepts leaves the socket bound or being bound.\<close>

lemma start_binds_socket:
  assumes "client this = Some c" and "close_calls c = 0" and "bind_state c = Unbound"
    and "b = Bind_listening \<or> b = Bind_pending"
  shows "\<exists>c'. client (fst (start this b s)) = Some c' \<and> close_calls c' = 0
              \<and> bind_state c' \<noteq> Unbound"
  using assms by (auto simp: start_def Let_def split: send_reply.splits)

text \<open>A call whose bind fails later leaves the socket unbound and open.\<close>

lemma start_failed_bind:
  assumes "client this = Some c"  and "close_calls c = 0" and "bind_state c = Unbound"
  shows "start this (Bind_error e) s =
           (this\<lparr>client := Some (c\<lparr>bind_calls := bind_calls c @
                                       [(port (options this), host (options this))]\<rparr>)\<rparr>,
            \<lparr>ts = 0, timer = NotStarted, promise = Pending\<rparr>)"
  using assms by (simp add: start_def Let_def)

text \<open>On an open, unbound socket the run of \<open>start()\<close> is decided by the answers alone.\<close>

lemma start_run:
  assumes "client this = Some c" and "close_calls c = 0" and "bind_state c = Unbound"
  shows "snd (start this b s) =
     (case b of
        Bind_throws e \<Rightarrow> \<lparr>ts = 0, timer = NotStarted, promise = Rejected (JError e)\<rparr>
      | Bind_error e \<Rightarrow> \<lparr>ts = 0, timer = NotStarted, promise = Pending\<rparr>
      | Bind_listening \<Rightarrow>
          (case s of
             SetBroadcast_throws e \<Rightarrow> \<lparr>ts = 0, timer = NotStarted, promise = Pending\<rparr>
           | Send_throws e \<Rightarrow> \<lparr>ts = 0, timer = NotStarted, promise = Pending\<rparr>
           | Send_error e \<Rightarrow> \<lparr>ts = 0, timer = NotStarted, promise = Rejected (JError e)\<rparr>
           | Send_ok \<Rightarrow> \<lparr>ts = 0, timer = Active, promise = Pending\<rparr>
           | Send_pending \<Rightarrow> \<lparr>ts = 0, timer = NotStarted, promise = Pending\<rparr>)
      | Bind_pending \<Rightarrow> \<lparr>ts = 0, timer = NotStarted, promise = Pending\<rparr>)"
  using assms by (simp add: start_def Let_def split: bind_reply.splits send_reply.splits)

text \<open>
  Claim C5 (a second \<open>start()\<close> fails with \<open>AlreadyStarted\<close>, for every
  configuration). The engine keeps no record of having been started and has no such
  error; a second call is refused only when the socket refuses the second \<open>bind\<close>.
  When the bind of the first call has failed (port 1982 is held by another socket, so
  the bind ends with \<open>EADDRINUSE\<close>), the socket is unbound again and the first
  promise stays pending. A second \<open>start()\<close> made after that failure is not refused:
  while the port is still taken its promise is pending like the first, and once the
  port is free the second call sends the probe and polls.
\<close>

theorem second_start_after_failed_bind_not_refused:
  "snd (start default_engine (Bind_error ''EADDRINUSE'') Send_ok)
     = \<lparr>ts = 0, timer = NotStarted, promise = Pending\<rparr>
   \<and> snd (start (fst (start default_engine (Bind_error ''EADDRINUSE'') Send_ok))
            (Bind_error ''EADDRINUSE'') Send_ok)
     = \<lparr>ts = 0, timer = NotStarted, promise = Pending\<rparr>
   \<and> snd (start (fst (start default_engine (Bind_error ''EADDRINUSE'') Send_ok))
            Bind_listening Send_ok)
     = \<lparr>ts = 0, timer = Active, promise = Pending\<rparr>"
  by (simp add: start_def engine_simps)

text \<open>
  Claim C5 as the code has it. After a \<open>start()\<close> whose bind the socket accepted (the
  socket is bound, or still being bound), every further \<open>start()\<close> on the engine is
  refused by the socket: \<open>bind\<close> throws \<open>ERR_SOCKET_ALREADY_BOUND\<close> inside the executor,
  the promise of the second call is rejected with that error, no timer is set and no
  probe is sent. The second call changes neither the device list nor the options, so
  the timer of the first call fires as it would have without the second call. After
  a \<open>start()\<close> whose bind failed, a second call does what a first call does.
\<close>

theorem second_start_refused_by_bound_socket:
  assumes "client this = Some c" and "close_calls c = 0" and "bind_state c = Unbound"
    and "b = Bind_listening \<or> b = Bind_pending"
  shows "snd (start (fst (start this b s)) b' s')
           = \<lparr>ts = 0, timer = NotStarted,
              promise = Rejected (JError ''ERR_SOCKET_ALREADY_BOUND'')\<rparr>
       \<and> map_option sent (client (fst (start (fst (start this b s)) b' s')))
           = map_option sent (client (fst (start this b s)))
       \<and> devices (fst (start (fst (start this b s)) b' s')) = devices this
       \<and> options (fst (start (fst (start this b s)) b' s')) = options this
       \<and> fire (fst (start (fst (start this b s)) b' s')) r = fire (fst (start this b s)) r
       \<and> snd (start (fst (start this (Bind_error e) s)) b' s') = snd (start this b' s')"
proof -
  from start_binds_socket [OF assms, of s]
  obtain c' where c': "client (fst (start this b s)) = Some c'" "close_calls c' = 0"
    "bind_state c' \<noteq> Unbound"
    by blast
  note second = start_on_bound_socket [OF c', of b' s']
  have 1: "snd (start (fst (start this b s)) b' s')
           = \<lparr>ts = 0, timer = NotStarted,
              promise = Rejected (JError ''ERR_SOCKET_ALREADY_BOUND'')\<rparr>"
    by (simp add: second)
  have 2: "map_option sent (client (fst (start (fst (start this b s)) b' s')))
           = map_option sent (client (fst (start this b s)))"
    by (simp add: second c'(1))
  have 3: "devices (fst (start (fst (start this b s)) b' s')) = devices this"
    by (simp only: start_devices)
  have 4: "options (fst (start (fst (start this b s)) b' s')) = options this"
    by (simp only: start_options)
  have 5: "fire (fst (start (fst (start this b s)) b' s')) r = fire (fst (start this b s)) r"
    by (rule fire_cong) (simp_all only: start_devices start_options)
  have f: "client (fst (start this (Bind_error e) s))
             = Some (c\<lparr>bind_calls := bind_calls c @
                        [(port (options this), host (options this))]\<rparr>)"
    by (simp add: start_failed_bind [OF assms(1-3)])
  have g: "close_calls (c\<lparr>bind_calls := bind_calls c @
                        [(port (options this), host (options this))]\<rparr>) = 0"
    "bind_state (c\<lparr>bind_calls := bind_calls c @
                        [(port (options this), host (options this))]\<rparr>) = Unbound"
    using assms(2,3) by simp_all
  have 6: "snd (start (fst (start this (Bind_error e) s)) b' s') = snd (start this b' s')"
    by (simp only: start_run [OF f g] start_run [OF assms(1-3)])
  from 1 2 3 4 5 6 show ?thesis by blast
qed

text \<open>
  Claim C5 as the code has it, at a concrete input: the default engine is started,
  has sent its probe and polls; the second \<open>start()\<close> is rejected with
  \<open>ERR_SOCKET_ALREADY_BOUND\<close>, and one probe has been sent, not two.
\<close>

theorem second_start_refused_by_bound_socket_witness:
  "client default_engine = Some (createSocket\<lparr>message_handler := True\<rparr>)
   \<and> close_calls (createSocket\<lparr>message_handler := True\<rparr>) = 0
   \<and> bind_state (createSocket\<lparr>message_handler := True\<rparr>) = Unbound
   \<and> (Bind_listening = Bind_listening \<or> Bind_listening = Bind_pending)
   \<and> snd (start (fst (start default_engine Bind_listening Send_ok)) Bind_listening Send_ok)
     = \<lparr>ts = 0, timer = NotStarted, promise = Rejected (JError ''ERR_SOCKET_ALREADY_BOUND'')\<rparr>
   \<and> map_option sent
        (client (fst (start (fst (start default_engine Bind_listening Send_ok))
                        Bind_listening Send_ok)))
     = Some [(getMessage, Some 1982, Some ''239.255.255.250'')]
   \<and> fire (fst (start (fst (start default_engine Bind_listening Send_ok))
                  Bind_listening Send_ok))
        (snd (start default_engine Bind_listening Send_ok))
     = fire (fst (start default_engine Bind_listening Send_ok))
        (snd (start default_engine Bind_listening Send_ok))"
proof -
  have h1: "client default_engine = Some (createSocket\<lparr>message_handler := True\<rparr>)"
    by (simp add: default_engine_def constructor_def)
  have h2: "close_calls (createSocket\<lparr>message_handler := True\<rparr>) = 0"
    by (simp add: createSocket_def)
  have h3: "bind_state (createSocket\<lparr>message_handler := True\<rparr>) = Unbound"
    by (simp add: createSocket_def)
  have h4: "Bind_listening = Bind_listening \<or> Bind_listening = Bind_pending"
    by simp
  have s: "map_option sent (client (fst (start default_engine Bind_listening Send_ok)))
             = Some [(getMessage, Some 1982, Some ''239.255.255.250'')]"
    by (simp add: start_def engine_simps)
  note w = second_start_refused_by_bound_socket [where s = Send_ok and b' = Bind_listening
      and s' = Send_ok and r = "snd (start default_engine Bind_listening Send_ok)"
      and e = "''EADDRINUSE''", OF h1 h2 h3 h4]
  from w s have "map_option sent
        (client (fst (start (fst (start default_engine Bind_listening Send_ok))
                        Bind_listening Send_ok)))
     = Some [(getMessage, Some 1982, Some ''239.255.255.250'')]"
    by simp
  with w h1 h2 h3 h4 show ?thesis by blast
qed

text \<open>A run whose timer is not set is changed by no callback.\<close>

lemma step_idle:
  assumes "timer r \<noteq> Active"
  shows "snd (step p (this, r) ev) = r"
  using assms by (cases ev) (simp_all add: fire_def)

lemma run_events_idle:
  assumes "timer r \<noteq> Active"
  shows "snd (run_events p (this, r) evs) = r"
proof (induction evs arbitrary: this)
  case Nil
  then show ?case by (simp add: run_events_def)
next
  case (Cons ev evs)
  obtain this' where "step p (this, r) ev = (this', r)"
    using step_idle [OF assms, of p this ev] by (cases "step p (this, r) ev") simp
  with Cons.IH [of this'] show ?case by (simp add: run_events_def)
qed

text \<open>
  Claim C7 (on a send failure the socket is released before the error reaches the
  caller). \<open>start()\<close> rejects with the error, but it does not call \<open>close\<close>: after a
  failed send on the default engine the promise is rejected and \<open>close\<close> has been
  called zero times.
\<close>

theorem send_failure_leaves_socket_open:
  "promise (snd (start default_engine Bind_listening (Send_error ''EACCES'')))
     = Rejected (JError ''EACCES'')
   \<and> map_option close_calls
        (client (fst (start default_engine Bind_listening (Send_error ''EACCES''))))
     = Some 0"
  by (simp add: start_def engine_simps)

text \<open>
  Claim C7 as the code has it, for a \<open>start()\<close> on a fresh engine whose bind succeeds.
  If \<open>send\<close> reports the failure to its callback, \<open>start()\<close> prints the error, rejects
  its promise with the error of the socket and sets no timer. If \<open>send\<close> throws
  instead (as it does for port 0), or \<open>setBroadcast\<close> throws, the exception leaves the
  callback of \<open>bind\<close> uncaught: nothing is printed, no timer is set, and the promise
  is not settled, neither then nor by any later callback. No path of \<open>start()\<close> calls
  \<open>close\<close>: whatever the socket answers, \<open>close\<close> has not been called afterwards, and
  the socket stays open until \<open>destroy()\<close>.
\<close>

theorem start_send_failure_never_closes:
  assumes "client this = Some c" and "close_calls c = 0" and "bind_state c = Unbound"
  shows "snd (start this Bind_listening (Send_error e))
           = \<lparr>ts = 0, timer = NotStarted, promise = Rejected (JError e)\<rparr>
       \<and> console (fst (start this Bind_listening (Send_error e))) = console this @ [JError e]
       \<and> snd (start this Bind_listening (Send_throws e))
           = \<lparr>ts = 0, timer = NotStarted, promise = Pending\<rparr>
       \<and> console (fst (start this Bind_listening (Send_throws e))) = console this
       \<and> uncaught (fst (start this Bind_listening (Send_throws e))) = uncaught this @ [JError e]
       \<and> snd (run_events p (start this Bind_listening (Send_throws e)) evs)
           = \<lparr>ts = 0, timer = NotStarted, promise = Pending\<rparr>
       \<and> snd (start this Bind_listening (SetBroadcast_throws e))
           = \<lparr>ts = 0, timer = NotStarted, promise = Pending\<rparr>
       \<and> console (fst (start this Bind_listening (SetBroadcast_throws e))) = console this
       \<and> snd (run_events p (start this Bind_listening (SetBroadcast_throws e)) evs)
           = \<lparr>ts = 0, timer = NotStarted, promise = Pending\<rparr>
       \<and> map_option close_calls (client (fst (start this b s))) = Some 0"
proof -
  have t: "snd (start this Bind_listening (Send_throws e))
             = \<lparr>ts = 0, timer = NotStarted, promise = Pending\<rparr>"
    and bt: "snd (start this Bind_listening (SetBroadcast_throws e))
             = \<lparr>ts = 0, timer = NotStarted, promise = Pending\<rparr>"
    using assms by (simp_all add: start_def Let_def)
  have idle: "snd (run_events p (this', \<lparr>ts = 0, timer = NotStarted, promise = Pending\<rparr>) evs)
             = \<lparr>ts = 0, timer = NotStarted, promise = Pending\<rparr>" for this' :: "'a discover"
    by (rule run_events_idle) simp
  have rt: "snd (run_events p (start this Bind_listening (Send_throws e)) evs)
             = \<lparr>ts = 0, timer = NotStarted, promise = Pending\<rparr>"
    using idle [of "fst (start this Bind_listening (Send_throws e))"] t
    by (cases "start this Bind_listening (Send_throws e)") simp
  have rb: "snd (run_events p (start this Bind_listening (SetBroadcast_throws e)) evs)
             = \<lparr>ts = 0, timer = NotStarted, promise = Pending\<rparr>"
    using idle [of "fst (start this Bind_listening (SetBroadcast_throws e))"] bt
    by (cases "start this Bind_listening (SetBroadcast_throws e)") simp
  have rest: "snd (start this Bind_listening (Send_error e))
           = \<lparr>ts = 0, timer = NotStarted, promise = Rejected (JError e)\<rparr>
       \<and> console (fst (start this Bind_listening (Send_error e))) = console this @ [JError e]
       \<and> console (fst (start this Bind_listening (Send_throws e))) = console this
       \<and> uncaught (fst (start this Bind_listening (Send_throws e))) = uncaught this @ [JError e]
       \<and> console (fst (start this Bind_listening (SetBroadcast_throws e))) = console this
       \<and> map_option close_calls (client (fst (start this b s))) = Some 0"
    using assms start_close_calls [of this b s] by (simp add: start_def Let_def)
  from t bt rt rb rest show ?thesis by blast
qed

text \<open>
  Claim C7 as the code has it, at a concrete input: the engine is made with port 0,
  the bind succeeds on some free port, and \<open>send\<close> throws \<open>ERR_SOCKET_BAD_PORT\<close>.
\<close>

theorem start_send_failure_never_closes_witness:
  "client port0_engine = Some (createSocket\<lparr>message_handler := True\<rparr>)
   \<and> close_calls (createSocket\<lparr>message_handler := True\<rparr>) = 0
   \<and> bind_state (createSocket\<lparr>message_handler := True\<rparr>) = Unbound
   \<and> snd (start port0_engine Bind_listening (Send_throws ''ERR_SOCKET_BAD_PORT''))
     = \<lparr>ts = 0, timer = NotStarted, promise = Pending\<rparr>
   \<and> console (fst (start port0_engine Bind_listening (Send_throws ''ERR_SOCKET_BAD_PORT''))) = []
   \<and> uncaught (fst (start port0_engine Bind_listening (Send_throws ''ERR_SOCKET_BAD_PORT'')))
     = [JError ''ERR_SOCKET_BAD_PORT'']
   \<and> map_option close_calls
        (client (fst (start port0_engine Bind_listening (Send_throws ''ERR_SOCKET_BAD_PORT''))))
     = Some 0"
proof -
  have h1: "client port0_engine = Some (createSocket\<lparr>message_handler := True\<rparr>)"
    by (simp add: port0_engine_def constructor_def)
  have h2: "close_calls (createSocket\<lparr>message_handler := True\<rparr>) = 0"
    by (simp add: createSocket_def)
  have h3: "bind_state (createSocket\<lparr>message_handler := True\<rparr>) = Unbound"
    by (simp add: createSocket_def)
  have c: "console port0_engine = []" "uncaught port0_engine = []"
    by (simp_all add: port0_engine_def constructor_def)
  from start_send_failure_never_closes
         [where e = "''ERR_SOCKET_BAD_PORT''" and b = Bind_listening
            and s = "Send_throws ''ERR_SOCKET_BAD_PORT''", OF h1 h2 h3] h1 h2 h3
  show ?thesis by (simp add: c)
qed

subsection \<open>\<open>destroy()\<close> and the callbacks after it\<close>

lemma destroy_devices: "devices (fst (destroy this c)) = devices this"
  by (simp add: destroy_def split: option.splits)

lemma destroy_options: "options (fst (destroy this c)) = options this"
  by (simp add: destroy_def split: option.splits)

text \<open>The guard of \<open>destroy()\<close> on a missing client never fires after a \<open>destroy()\<close>.\<close>

lemma destroy_keeps_client: "client (fst (destroy this c)) = None \<longleftrightarrow> client this = None"
  by (simp add: destroy_def split: option.splits)


lemma onSocketMessage_devices:
  "devices (onSocketMessage p this m) =
     (case p m of None \<Rightarrow> devices this | Some device \<Rightarrow> devices (fst (addDevice this device)))"
  by (simp add: onSocketMessage_def Let_def emit_def addDevice_def split: option.splits)

lemma onSocketMessage_options: "options (onSocketMessage p this m) = options this"
  by (simp add: onSocketMessage_def Let_def emit_def addDevice_options split: option.splits)


lemma onSocketMessage_length:
  "length (devices this) \<le> length (devices (onSocketMessage p this m))"
  using addDevice_length [of this]
  by (simp add: onSocketMessage_devices split: option.splits)

lemma step_options: "options (fst (step p (this, r) ev)) = options this"
  by (cases ev) (simp_all add: onSocketMessage_options on_event_def destroy_options)

lemma step_length: "length (devices this) \<le> length (devices (fst (step p (this, r) ev)))"
  by (cases ev) (simp_all add: onSocketMessage_length on_event_def destroy_devices)






text \<open>
  Claim C9 (\<open>destroy()\<close> is safe before \<open>start()\<close>, after the run, and a second time).
  Before \<open>start()\<close> it closes the socket and resolves. It never clears \<open>this.client\<close>,
  so on the second call the guard \<open>!this.client\<close> does not fire and \<open>close\<close> is called
  again on the socket that is already closed; the socket throws
  \<open>ERR_SOCKET_DGRAM_NOT_RUNNING\<close> there, inside the executor of the promise, and the
  promise of the second \<open>destroy()\<close> is rejected.
\<close>

theorem second_destroy_closes_closed_socket:
  "destroy default_engine Close_done
     = (default_engine\<lparr>client := Some (createSocket\<lparr>message_handler := True, close_calls := 1\<rparr>)\<rparr>,
        Resolved ())
   \<and> destroy (fst (destroy default_engine Close_done))
        (Close_throws ''ERR_SOCKET_DGRAM_NOT_RUNNING'')
     = (default_engine\<lparr>client := Some (createSocket\<lparr>message_handler := True, close_calls := 2\<rparr>)\<rparr>,
        Rejected (JError ''ERR_SOCKET_DGRAM_NOT_RUNNING''))"
  by (simp add: destroy_def engine_simps)

subsection \<open>A run without timeout\<close>

lemma step_unbounded_ok:
  assumes "timeout (options this) = Some 0" and "unbounded_ok (this, r)"
  shows "unbounded_ok (step p (this, r) ev)"
proof (cases ev)
  case Tick
  then show ?thesis using assms
    by (auto simp: unbounded_ok_def fire_def tick_no_timeout resolve_def clearInterval_def
        split: settled.splits option.splits)
next
  case (Datagram m)
  then show ?thesis using assms onSocketMessage_length [of this p m]
    by (auto simp: unbounded_ok_def onSocketMessage_options split: settled.splits option.splits)
next
  case (Subscribe e l)
  then show ?thesis using assms
    by (auto simp: unbounded_ok_def on_event_def split: settled.splits option.splits)
next
  case (Destroy c)
  then show ?thesis using assms
    by (auto simp: unbounded_ok_def destroy_devices destroy_options split: settled.splits option.splits)
qed

lemma run_events_options: "options (fst (run_events p s evs)) = options (fst s)"
proof (induction evs arbitrary: s)
  case Nil
  then show ?case by (simp add: run_events_def)
next
  case (Cons ev evs)
  obtain this r where s: "s = (this, r)" by (cases s)
  from Cons.IH [of "step p s ev"] show ?case
    by (simp add: run_events_def s step_options)
qed

lemma run_events_unbounded_ok:
  assumes "timeout (options (fst s)) = Some 0" and "unbounded_ok s"
  shows "unbounded_ok (run_events p s evs)"
  using assms
proof (induction evs arbitrary: s)
  case Nil
  then show ?case by (simp add: run_events_def)
next
  case (Cons ev evs)
  obtain this r where s: "s = (this, r)" by (cases s)
  have "timeout (options (fst (step p s ev))) = Some 0"
    using Cons.prems(1) by (simp add: s step_options)
  moreover have "unbounded_ok (step p s ev)"
    using Cons.prems step_unbounded_ok [of this r p ev] by (simp add: s)
  ultimately have "unbounded_ok (run_events p (step p s ev) evs)"
    by (rule Cons.IH)
  then show ?case by (simp add: run_events_def)
qed

text \<open>
  Claim C6 (with \<open>timeoutMs = 0\<close> the run never times out). With timeout 0 a tick of
  a pending run never enters the timeout branch: it resolves when the list has
  reached the limit and otherwise only advances the counter. Over every sequence of
  ticks, datagrams, subscriptions and calls of \<open>destroy()\<close> the promise is never
  rejected, and when it is resolved the list has reached the limit; as long as the
  limit is not reached the run stays pending.
\<close>

theorem unbounded_run_never_times_out:
  assumes "timeout (options this) = Some 0" and "promise r = Pending"
  shows "tick this r =
           (if (case limit (options this) of
                  None \<Rightarrow> False
                | Some l \<Rightarrow> l \<le> int (length (devices this)))
            then r\<lparr>ts := ts r + 200, timer := Cleared, promise := Resolved This_devices\<rparr>
            else r\<lparr>ts := ts r + 200\<rparr>)
       \<and> (case promise (snd (run_events p (this, r) evs)) of
             Pending \<Rightarrow> True
           | Resolved v \<Rightarrow>
               (case limit (options this) of
                  None \<Rightarrow> False
                | Some l \<Rightarrow> l \<le> int (length (devices (fst (run_events p (this, r) evs)))))
           | Rejected v \<Rightarrow> False)"
proof -
  have t: "tick this r =
           (if (case limit (options this) of
                  None \<Rightarrow> False
                | Some l \<Rightarrow> l \<le> int (length (devices this)))
            then r\<lparr>ts := ts r + 200, timer := Cleared, promise := Resolved This_devices\<rparr>
            else r\<lparr>ts := ts r + 200\<rparr>)"
    using assms by (simp add: tick_simps)
  have "unbounded_ok (this, r)"
    using assms(2) by (simp add: unbounded_ok_def)
  with assms(1) have "unbounded_ok (run_events p (this, r) evs)"
    by (simp add: run_events_unbounded_ok)
  then have "case promise (snd (run_events p (this, r) evs)) of
               Pending \<Rightarrow> True
             | Resolved v \<Rightarrow>
                 (case limit (options this) of
                    None \<Rightarrow> False
                  | Some l \<Rightarrow> l \<le> int (length (devices (fst (run_events p (this, r) evs)))))
             | Rejected v \<Rightarrow> False"
    using run_events_options [of p "(this, r)" evs]
    by (auto simp: unbounded_ok_def split: settled.splits option.splits)
  with t show ?thesis by blast
qed

text \<open>
  Claim C6, at a concrete input: limit 2 and timeout 0; a tick, a reply of one
  device, and three more ticks leave the run pending with its timer set.
\<close>

theorem unbounded_run_never_times_out_witness:
  "timeout (options (fst (start unbounded_engine Bind_listening Send_ok))) = Some 0
   \<and> promise (snd (start unbounded_engine Bind_listening Send_ok)) = Pending
   \<and> tick (fst (start unbounded_engine Bind_listening Send_ok))
        (snd (start unbounded_engine Bind_listening Send_ok))
     = \<lparr>ts = 200, timer = Active, promise = Pending\<rparr>
   \<and> snd (run_events example_parser
            (fst (start unbounded_engine Bind_listening Send_ok),
             snd (start unbounded_engine Bind_listening Send_ok))
            [Tick, Datagram ''abc'', Tick, Tick, Tick])
     = \<lparr>ts = 800, timer = Active, promise = Pending\<rparr>"
proof -
  let ?e = "fst (start unbounded_engine Bind_listening Send_ok)"
  let ?r = "snd (start unbounded_engine Bind_listening Send_ok)"
  have h1: "timeout (options ?e) = Some 0"
    by (simp add: start_options engine_simps)
  have h2: "promise ?r = Pending"
    by (simp add: start_def engine_simps)
  have r: "?r = \<lparr>ts = 0, timer = Active, promise = Pending\<rparr>"
    by (simp add: start_def engine_simps)
  have l: "limit (options ?e) = Some 2" "devices ?e = []"
    by (simp_all add: start_options start_devices engine_simps)
  note w = unbounded_run_never_times_out [OF h1 h2,
      of example_parser "[Tick, Datagram ''abc'', Tick, Tick, Tick]"]
  from w have t: "tick ?e ?r = \<lparr>ts = 200, timer = Active, promise = Pending\<rparr>"
    by (simp add: l r)
  have "snd (run_events example_parser (?e, ?r) [Tick, Datagram ''abc'', Tick, Tick, Tick])
          = \<lparr>ts = 800, timer = Active, promise = Pending\<rparr>"
    by (simp add: run_events_def start_def fire_def tick_simps engine_simps
        onSocketMessage_def emit_def addDevice_def example_parser_def)
  with h1 h2 t show ?thesis by blast
qed

subsection \<open>Datagrams after the run has completed\<close>



end
